theory Spec2Isabelle
  imports Main "HOL-Library.AList" "HOL-Library.Word"
begin

section \<open>The RPC dispatch core of starx (rpc/server.go)\<close>

text \<open>
  A shallow embedding of \<^verbatim>\<open>src/rpc/server.go\<close>. Go strings are byte sequences and are
  modelled as \<open>string\<close>; the two byte-sized enumerations are \<open>8 word\<close>; a Go map is an
  association list read with \<open>map_of\<close> and written with \<open>AList.update\<close> (a nil map and an
  empty map read alike, and \<open>register\<close> replaces a nil map before it writes, so both are
  \<open>[]\<close>); a panic is the outcome \<open>Panics\<close>. What the package takes from the Go runtime
  (the Unicode upper-case table, the method tables of the reflected types) is a parameter
  of type \<open>runtime\<close>. Output written with package \<^verbatim>\<open>log\<close> and \<^verbatim>\<open>fmt\<close> is not modelled: the
  flag \<^verbatim>\<open>reportErr\<close> of \<^verbatim>\<open>suitableMethods\<close> selects such output only.
\<close>

subsection \<open>Enumerations\<close>

type_synonym ResponseKind = "8 word"

definition HandlerResponse :: ResponseKind where "HandlerResponse = 1"
definition HandlerPush :: ResponseKind where "HandlerPush = 2"
definition RemoteResponse :: ResponseKind where "RemoteResponse = 3"

type_synonym RpcKind = "8 word"

definition SysRpc :: RpcKind where "SysRpc = 1"
definition UserRpc :: RpcKind where "UserRpc = 2"

subsection \<open>Reflected types\<close>

text \<open>
  \<^verbatim>\<open>reflect.Kind\<close> without \<^verbatim>\<open>Ptr\<close> and \<^verbatim>\<open>Slice\<close>: a pointer type and a slice type carry
  their element type and have constructors of their own in \<open>rtype\<close>, so that \<^verbatim>\<open>t.Elem()\<close>
  is defined exactly where \<^verbatim>\<open>t.Kind() == reflect.Ptr\<close> holds.
\<close>

datatype Kind =
    Invalid | Bool | Int | Int8 | Int16 | Int32 | Int64
  | Uint | Uint8 | Uint16 | Uint32 | Uint64 | Uintptr
  | Float32 | Float64 | Complex64 | Complex128
  | Array | Chan | Func | Interface | Map | String | Struct | UnsafePointer

text \<open>
  A \<^verbatim>\<open>reflect.Type\<close> as far as the package observes one: \<^verbatim>\<open>Name()\<close>, \<^verbatim>\<open>PkgPath()\<close>,
  whether its kind is \<^verbatim>\<open>Ptr\<close>, \<^verbatim>\<open>Elem()\<close> of a pointer, and identity with the types
  \<^verbatim>\<open>error\<close> and \<^verbatim>\<open>[]byte\<close>. An unnamed type has the empty name and package path.
\<close>

datatype rtype =
    PtrType (Name: string) (PkgPath: string) rtype
  | SliceType (Name: string) (PkgPath: string) rtype
  | OtherType Kind (Name: string) (PkgPath: string)

fun isPtr :: "rtype \<Rightarrow> bool" where
  "isPtr (PtrType n p e) = True"
| "isPtr t = False"

text \<open>\<^verbatim>\<open>reflect.PtrTo(t)\<close>: the unnamed pointer type with element \<open>t\<close>.\<close>

definition PtrTo :: "rtype \<Rightarrow> rtype" where
  "PtrTo t = PtrType [] [] t"

text \<open>\<^verbatim>\<open>typeOfError = reflect.TypeOf((*error)(nil)).Elem()\<close> and
  \<^verbatim>\<open>typeOfBytes = reflect.TypeOf(([]byte)(nil))\<close>; \<^verbatim>\<open>byte\<close> is an alias of \<^verbatim>\<open>uint8\<close>.\<close>

definition typeOfError :: rtype where
  "typeOfError = OtherType Interface ''error'' []"

definition typeOfBytes :: rtype where
  "typeOfBytes = SliceType [] [] (OtherType Uint8 ''uint8'' [])"

subsection \<open>Reflected values\<close>

text \<open>
  A \<^verbatim>\<open>reflect.Value\<close> (and the \<^verbatim>\<open>interface{}\<close> it is made from): the zero Value, which
  \<^verbatim>\<open>reflect.ValueOf(nil)\<close> returns, or a type with its data. \<open>NilData\<close> is the nil of a
  pointer, slice or interface type.
\<close>

datatype data = NilData | Bytes "8 word list" | Obj nat

datatype rvalue = ZeroValue | Val rtype data

text \<open>
  \<^verbatim>\<open>reflect.Indirect(v).Type()\<close>. \<^verbatim>\<open>Indirect\<close> returns \<open>v\<close> itself unless its kind is
  \<^verbatim>\<open>Ptr\<close>, and then what it points to, which is the zero Value for a nil pointer;
  \<^verbatim>\<open>Type()\<close> panics on the zero Value (\<open>None\<close>).
\<close>

fun Indirect_Type :: "rvalue \<Rightarrow> rtype option" where
  "Indirect_Type ZeroValue = None"
| "Indirect_Type (Val (PtrType n p e) d) = (if d = NilData then None else Some e)"
| "Indirect_Type (Val t d) = Some t"

subsection \<open>Methods\<close>

text \<open>
  A \<^verbatim>\<open>reflect.Method\<close> of a concrete (non-interface) type, which is all that
  \<^verbatim>\<open>reflect.TypeOf\<close> of an \<^verbatim>\<open>interface{}\<close> and \<^verbatim>\<open>reflect.PtrTo\<close> return: the first input of
  its function type is the receiver. \<open>Func m args w\<close> is \<^verbatim>\<open>m.Func.Call(args)\<close> run in the
  state \<open>w\<close> of everything outside the server that a handler can reach: it returns the
  results, or \<open>None\<close> when the call panics (\<^verbatim>\<open>reflect\<close> rejecting the arguments, or the
  handler itself), together with the state it leaves. A handler that calls back into the
  server it is registered on is not covered: \<open>w\<close> does not hold the server.
\<close>

record 'w Method =
  MethodName :: string
  MethodPkgPath :: string
  Recv :: rtype
  Params :: "rtype list"
  Results :: "rtype list"
  Func :: "rvalue list \<Rightarrow> 'w \<Rightarrow> rvalue list option \<times> 'w"

definition NumIn :: "'w Method \<Rightarrow> nat" where
  "NumIn m = length (Recv m # Params m)"

definition In :: "'w Method \<Rightarrow> nat \<Rightarrow> rtype" where
  "In m i = (Recv m # Params m) ! i"

definition NumOut :: "'w Method \<Rightarrow> nat" where
  "NumOut m = length (Results m)"

definition Out :: "'w Method \<Rightarrow> nat \<Rightarrow> rtype" where
  "Out m i = Results m ! i"

record 'w methodType =
  "method" :: "'w Method"
  ArgType :: "rtype option"
  ReplyType :: "rtype option"
  numCalls :: nat

text \<open>
  What the Go runtime supplies: \<open>Upper r\<close> is \<^verbatim>\<open>unicode.IsUpper(r)\<close>, and \<open>MethodSet t\<close> lists
  \<^verbatim>\<open>t.Method(0)\<close>, ..., \<^verbatim>\<open>t.Method(t.NumMethod() - 1)\<close>.
\<close>

record 'w runtime =
  Upper :: "nat \<Rightarrow> bool"
  MethodSet :: "rtype \<Rightarrow> 'w Method list"

subsection \<open>Exported names\<close>

definition RuneError :: nat where
  "RuneError = 0xFFFD"

text \<open>
  \<^verbatim>\<open>utf8.DecodeRuneInString\<close> of the Go library: the first rune of \<open>s\<close> and its width in
  bytes; \<open>(RuneError, 0)\<close> for the empty string and \<open>(RuneError, 1)\<close> for an invalid or
  truncated encoding.
\<close>

definition continuation :: "nat \<Rightarrow> bool" where
  "continuation b = (0x80 \<le> b \<and> b \<le> 0xBF)"

definition DecodeRuneInString :: "string \<Rightarrow> nat \<times> nat" where
  "DecodeRuneInString s =
     (case map of_char s of
        [] \<Rightarrow> (RuneError, 0)
      | s0 # rest \<Rightarrow>
          if s0 < 0x80 then (s0, 1)
          else if s0 < 0xC2 \<or> 0xF4 < s0 then (RuneError, 1)
          else
            let sz = (if s0 < 0xE0 then 2 else if s0 < 0xF0 then 3 else 4 :: nat);
                lo = (if s0 = 0xE0 then 0xA0 else if s0 = 0xF0 then 0x90 else 0x80 :: nat);
                hi = (if s0 = 0xED then 0x9F else if s0 = 0xF4 then 0x8F else 0xBF :: nat)
            in if length s < sz then (RuneError, 1)
               else
                 let s1 = rest ! 0 in
                 if s1 < lo \<or> hi < s1 then (RuneError, 1)
                 else if sz \<le> 2 then ((s0 mod 0x20) * 0x40 + s1 mod 0x40, 2)
                 else
                   let s2 = rest ! 1 in
                   if \<not> continuation s2 then (RuneError, 1)
                   else if sz \<le> 3 then
                     ((s0 mod 0x10) * 0x1000 + (s1 mod 0x40) * 0x40 + s2 mod 0x40, 3)
                   else
                     let s3 = rest ! 2 in
                     if \<not> continuation s3 then (RuneError, 1)
                     else ((s0 mod 0x08) * 0x40000 + (s1 mod 0x40) * 0x1000
                             + (s2 mod 0x40) * 0x40 + s3 mod 0x40, 4))"

definition isExported :: "'w runtime \<Rightarrow> string \<Rightarrow> bool" where
  "isExported rt name = (let (rune, _) = DecodeRuneInString name in Upper rt rune)"

fun isExportedOrBuiltinType :: "'w runtime \<Rightarrow> rtype \<Rightarrow> bool" where
  "isExportedOrBuiltinType rt (PtrType n p e) = isExportedOrBuiltinType rt e"
| "isExportedOrBuiltinType rt t = (isExported rt (Name t) \<or> PkgPath t = [])"

subsection \<open>The method validator\<close>

text \<open>
  The two loops of \<^verbatim>\<open>suitableMethods\<close> over \<^verbatim>\<open>typ.Method(m)\<close>; each \<^verbatim>\<open>continue\<close> is a
  recursive call that leaves the map \<open>methods\<close> as it is; \<open>mth\<close> is the loop's
  variable \<^verbatim>\<open>method\<close>. A \<^verbatim>\<open>methodType\<close> literal leaves
  \<open>numCalls\<close>, and for the User namespace the two types, at their zero values.
\<close>

fun sysLoop ::
  "'w runtime \<Rightarrow> 'w Method list \<Rightarrow> (string \<times> 'w methodType) list \<Rightarrow> (string \<times> 'w methodType) list"
where
  "sysLoop rt [] methods = methods"
| "sysLoop rt (mth # rest) methods =
     (let mname = MethodName mth in
      if MethodPkgPath mth \<noteq> [] then sysLoop rt rest methods
      else if NumIn mth \<noteq> 3 then sysLoop rt rest methods
      else
        let argType = In mth 1 in
        if \<not> isExportedOrBuiltinType rt argType then sysLoop rt rest methods
        else if \<not> isPtr argType then sysLoop rt rest methods
        else
          let replyType = In mth 2 in
          if \<not> isExportedOrBuiltinType rt replyType then sysLoop rt rest methods
          else if NumOut mth \<noteq> 1 then sysLoop rt rest methods
          else if Out mth 0 \<noteq> typeOfError then sysLoop rt rest methods
          else sysLoop rt rest
                 (AList.update mname
                    \<lparr>method = mth, ArgType = Some argType, ReplyType = Some replyType,
                     numCalls = 0\<rparr> methods))"

fun userLoop ::
  "'w Method list \<Rightarrow> (string \<times> 'w methodType) list \<Rightarrow> (string \<times> 'w methodType) list"
where
  "userLoop [] methods = methods"
| "userLoop (mth # rest) methods =
     (let mname = MethodName mth in
      if MethodPkgPath mth \<noteq> [] then userLoop rest methods
      else if NumIn mth < 1 then userLoop rest methods
      else if NumOut mth \<noteq> 2 then userLoop rest methods
      else if Out mth 0 \<noteq> typeOfBytes then userLoop rest methods
      else if Out mth 1 \<noteq> typeOfError then userLoop rest methods
      else userLoop rest
             (AList.update mname
                \<lparr>method = mth, ArgType = None, ReplyType = None, numCalls = 0\<rparr> methods))"

definition suitableMethods ::
  "'w runtime \<Rightarrow> RpcKind \<Rightarrow> rtype \<Rightarrow> bool \<Rightarrow> (string \<times> 'w methodType) list"
where
  "suitableMethods rt kind typ reportErr =
     (if kind = SysRpc then sysLoop rt (MethodSet rt typ) []
      else if kind = UserRpc then userLoop (MethodSet rt typ) []
      else [])"

text \<open>
  The contract of \<section>4.1 in the specification's words, to be compared with the two loops:
  what makes a method admissible in each namespace.
\<close>

definition sys_admissible :: "'w runtime \<Rightarrow> 'w Method \<Rightarrow> bool" where
  "sys_admissible rt m =
     (MethodPkgPath m = [] \<and> length (Params m) = 2
      \<and> isExportedOrBuiltinType rt (Params m ! 0) \<and> isPtr (Params m ! 0)
      \<and> isExportedOrBuiltinType rt (Params m ! 1)
      \<and> Results m = [typeOfError])"

definition user_admissible :: "'w Method \<Rightarrow> bool" where
  "user_admissible m = (MethodPkgPath m = [] \<and> Results m = [typeOfBytes, typeOfError])"

subsection \<open>Services, the server and its results\<close>

text \<open>
  The fields \<^verbatim>\<open>method\<close> and \<^verbatim>\<open>typ\<close> of \<^verbatim>\<open>service\<close> are \<open>methods\<close> and \<open>rcvr_typ\<close> here
  (\<open>method\<close> is the field of \<^verbatim>\<open>methodType\<close>). The maps hold pointers that \<^verbatim>\<open>register\<close> and \<^verbatim>\<open>suitableMethods\<close>, their
  only writers, never leave nil, so the tests \<^verbatim>\<open>s != nil\<close> and \<^verbatim>\<open>m != nil\<close> of \<^verbatim>\<open>Call\<close> hold
  of every entry and an entry is the record itself.
\<close>

record 'w service =
  name :: string
  rcvr :: rvalue
  rcvr_typ :: rtype
  methods :: "(string \<times> 'w methodType) list"

text \<open>
  The three mutexes of \<^verbatim>\<open>Server\<close> have no field: what is done with \<^verbatim>\<open>mu\<close> is recorded as
  events. \<open>freeReq\<close> and \<open>freeResp\<close> are pointers, \<open>None\<close> for nil.
\<close>

record 'w Server =
  Kind :: RpcKind
  serviceMap :: "(string \<times> 'w service) list"
  freeReq :: "nat option"
  freeResp :: "nat option"

definition NewServer :: "RpcKind \<Rightarrow> 'w Server" where
  "NewServer kind = \<lparr>Kind = kind, serviceMap = [], freeReq = None, freeResp = None\<rparr>"

text \<open>
  The errors the package makes with \<^verbatim>\<open>errors.New\<close>, one constructor for each message:
  \<^item> \<open>NoServiceName t\<close>: \<^verbatim>\<open>"rpc.Register: no service name for type " + t.String()\<close>;
  \<^item> \<open>TypeNotExported n\<close>: \<^verbatim>\<open>"rpc.Register: type " + n + " is not exported"\<close>;
  \<^item> \<open>ServiceAlreadyDefined n\<close>: \<^verbatim>\<open>"rpc: service already defined: " + n\<close>;
  \<^item> \<open>NoSuitableMethods n hint\<close>:
    \<^verbatim>\<open>"rpc.Register: type " + n + " has no exported methods of suitable type"\<close>, followed by
    \<^verbatim>\<open>" (hint: pass a pointer to value of that type)"\<close> when \<open>hint\<close> holds;
  \<^item> \<open>WrongRouteString\<close>: \<^verbatim>\<open>"wrong route string"\<close>;
  \<^item> \<open>DoNotExists n\<close>: \<^verbatim>\<open>"rpc: " + n + " do not exists"\<close>, which \<^verbatim>\<open>Call\<close> makes of the service
    name when the service is missing and of the method name when the method is.
\<close>

datatype rpc_error =
    NoServiceName rtype
  | TypeNotExported string
  | ServiceAlreadyDefined string
  | NoSuitableMethods string bool
  | WrongRouteString
  | DoNotExists string

datatype 'a outcome = Panics | Returns 'a

text \<open>
  What a function does with the mutex \<^verbatim>\<open>mu\<close> and with the keys of \<^verbatim>\<open>serviceMap\<close>, in the
  order in which it does it.
\<close>

datatype event =
    Lock | Unlock | RLock | RUnlock
  | ReadServiceMap string
  | WriteServiceMap string

text \<open>
  The lock discipline that the comment on \<^verbatim>\<open>mu\<close> (\<^verbatim>\<open>protects the serviceMap\<close>) asks for:
  every access to the map lies between an acquisition of \<^verbatim>\<open>mu\<close> and its release.
  \<open>held\<close> says whether the running function holds \<^verbatim>\<open>mu\<close>.
\<close>

fun accesses_locked :: "bool \<Rightarrow> event list \<Rightarrow> bool" where
  "accesses_locked held [] = True"
| "accesses_locked held (Lock # es) = accesses_locked True es"
| "accesses_locked held (RLock # es) = accesses_locked True es"
| "accesses_locked held (Unlock # es) = accesses_locked False es"
| "accesses_locked held (RUnlock # es) = accesses_locked False es"
| "accesses_locked held (ReadServiceMap k # es) = (held \<and> accesses_locked held es)"
| "accesses_locked held (WriteServiceMap k # es) = (held \<and> accesses_locked held es)"

record 'w register_result =
  reg_out :: "rpc_error option outcome"
  reg_server :: "'w Server"
  reg_events :: "event list"

record 'w call_result =
  call_out :: "(rvalue list option \<times> rpc_error option) outcome"
  call_server :: "'w Server"
  call_world :: 'w
  call_events :: "event list"

subsection \<open>Registration\<close>

text \<open>
  \<^verbatim>\<open>register\<close>. \<open>reg_out\<close> is the error returned (\<open>None\<close> for nil) or \<open>Panics\<close>;
  \<^verbatim>\<open>defer server.mu.Unlock()\<close> runs on every way out. \<^verbatim>\<open>reflect.TypeOf(rcvr)\<close> is the type
  \<open>typ'\<close> of the value \<open>Val typ' d\<close>, and the nil Type for the nil interface.
  \<^verbatim>\<open>reflect.Indirect(s.rcvr).Type()\<close> is evaluated before \<^verbatim>\<open>useName\<close> is looked at, and panics
  for the nil interface and for a nil pointer. \<^verbatim>\<open>len\<close> of a map built by \<open>AList.update\<close> from \<open>[]\<close> is the length of the list.
\<close>

definition register ::
  "'w runtime \<Rightarrow> 'w Server \<Rightarrow> rvalue \<Rightarrow> string \<Rightarrow> bool \<Rightarrow> 'w register_result"
where
  "register rt server rcvr' name' useName =
     (case rcvr' of
        ZeroValue \<Rightarrow> \<lparr>reg_out = Panics, reg_server = server, reg_events = [Lock, Unlock]\<rparr>
      | Val typ' d \<Rightarrow>
         (case Indirect_Type rcvr' of
            None \<Rightarrow> \<lparr>reg_out = Panics, reg_server = server, reg_events = [Lock, Unlock]\<rparr>
          | Some it \<Rightarrow>
              let sname = (if useName then name' else Name it) in
              if sname = [] then
                \<lparr>reg_out = Returns (Some (NoServiceName typ')), reg_server = server,
                 reg_events = [Lock, Unlock]\<rparr>
              else if \<not> isExported rt sname \<and> \<not> useName then
                \<lparr>reg_out = Returns (Some (TypeNotExported sname)), reg_server = server,
                 reg_events = [Lock, Unlock]\<rparr>
              else if map_of (serviceMap server) sname \<noteq> None then
                \<lparr>reg_out = Returns (Some (ServiceAlreadyDefined sname)), reg_server = server,
                 reg_events = [Lock, ReadServiceMap sname, Unlock]\<rparr>
              else
                let ms = suitableMethods rt (Kind server) typ' True in
                if length ms = 0 then
                  let ms' = suitableMethods rt (Kind server) (PtrTo typ') False in
                  \<lparr>reg_out = Returns (Some (NoSuitableMethods sname (length ms' \<noteq> 0))),
                   reg_server = server,
                   reg_events = [Lock, ReadServiceMap sname, Unlock]\<rparr>
                else
                  \<lparr>reg_out = Returns None,
                   reg_server = server\<lparr>serviceMap :=
                     AList.update sname
                       \<lparr>name = sname, rcvr = rcvr', rcvr_typ = typ', methods = ms\<rparr>
                       (serviceMap server)\<rparr>,
                   reg_events = [Lock, ReadServiceMap sname, WriteServiceMap sname, Unlock]\<rparr>))"

definition Register :: "'w runtime \<Rightarrow> 'w Server \<Rightarrow> rvalue \<Rightarrow> 'w register_result" where
  "Register rt server rcvr' = register rt server rcvr' [] False"

definition RegisterName ::
  "'w runtime \<Rightarrow> 'w Server \<Rightarrow> string \<Rightarrow> rvalue \<Rightarrow> 'w register_result"
where
  "RegisterName rt server name' rcvr' = register rt server rcvr' name' True"

definition NumCalls :: "'w methodType \<Rightarrow> nat" where
  "NumCalls m = numCalls m"

subsection \<open>Dispatch\<close>

text \<open>
  \<^verbatim>\<open>strings.Split(s, sep)\<close> for a separator of one byte, which \<^verbatim>\<open>"."\<close> is: the pieces of \<open>s\<close>
  between the occurrences of \<open>sep\<close>, one more than there are occurrences.
\<close>

fun Split :: "string \<Rightarrow> char \<Rightarrow> string list" where
  "Split [] sep = [[]]"
| "Split (c # s) sep =
     (if c = sep then [] # Split s sep
      else (case Split s sep of [] \<Rightarrow> [[c]] | p # ps \<Rightarrow> (c # p) # ps))"

text \<open>
  \<^verbatim>\<open>Call\<close>. \<open>call_out\<close> is the pair the function returns, \<open>None\<close> for nil in either place, or
  \<open>Panics\<close> when \<^verbatim>\<open>m.method.Func.Call(args)\<close> does; \<open>call_world\<close> is the state the handler
  leaves. The function takes no lock and writes to no field of the server.
\<close>

definition Call ::
  "'w Server \<Rightarrow> string \<Rightarrow> rvalue list \<Rightarrow> 'w \<Rightarrow> 'w call_result"
where
  "Call server serviceMethod args w =
     (let parts = Split serviceMethod (CHR ''.'') in
      if length parts \<noteq> 2 then
        \<lparr>call_out = Returns (None, Some WrongRouteString), call_server = server,
         call_world = w, call_events = []\<rparr>
      else
        let sname = parts ! 0; smethod = parts ! 1 in
        case map_of (serviceMap server) sname of
          Some s \<Rightarrow>
            (case map_of (methods s) smethod of
               Some m \<Rightarrow>
                 let args' = rcvr s # args;
                     (rets, w') = Func (method m) args' w
                 in \<lparr>call_out = (case rets of None \<Rightarrow> Panics | Some r \<Rightarrow> Returns (Some r, None)),
                     call_server = server, call_world = w',
                     call_events = [ReadServiceMap sname]\<rparr>
             | None \<Rightarrow>
                 \<lparr>call_out = Returns (None, Some (DoNotExists smethod)), call_server = server,
                  call_world = w, call_events = [ReadServiceMap sname]\<rparr>)
        | None \<Rightarrow>
            \<lparr>call_out = Returns (None, Some (DoNotExists sname)), call_server = server,
             call_world = w, call_events = [ReadServiceMap sname]\<rparr>)"

subsection \<open>The Response pool\<close>

text \<open>
  \<^verbatim>\<open>Response\<close>; \<open>RespKind\<close> is its field \<^verbatim>\<open>Kind\<close> and \<open>next_resp\<close> its field \<^verbatim>\<open>next\<close>. A
  \<^verbatim>\<open>[]byte\<close> field is \<open>None\<close> when nil. Responses live in a store: \<open>cells mem a\<close> is the
  Response at address \<open>a\<close>, and \<^verbatim>\<open>new(Response)\<close> takes the address \<open>brk mem\<close>, the first
  one never handed out.
\<close>

record Response =
  RespKind :: ResponseKind
  ServiceMethod :: string
  Seq :: "64 word"
  Sid :: "64 word"
  Reply :: "8 word list option"
  Error :: string
  Route :: string
  next_resp :: "nat option"

text \<open>\<^verbatim>\<open>Response{}\<close>, every field at the zero value of its type.\<close>

definition zero_Response :: Response where
  "zero_Response =
     \<lparr>RespKind = 0, ServiceMethod = [], Seq = 0, Sid = 0, Reply = None, Error = [],
      Route = [], next_resp = None\<rparr>"

record memory =
  cells :: "nat \<Rightarrow> Response"
  brk :: nat

record 'w get_result =
  got :: nat
  get_server :: "'w Server"
  get_mem :: memory

definition getResponse :: "'w Server \<Rightarrow> memory \<Rightarrow> 'w get_result" where
  "getResponse server mem =
     (case freeResp server of
        None \<Rightarrow>
          let resp = brk mem in
          \<lparr>got = resp, get_server = server,
           get_mem = mem\<lparr>cells := (cells mem)(resp := zero_Response), brk := Suc resp\<rparr>\<rparr>
      | Some resp \<Rightarrow>
          \<lparr>got = resp, get_server = server\<lparr>freeResp := next_resp (cells mem resp)\<rparr>,
           get_mem = mem\<lparr>cells := (cells mem)(resp := zero_Response)\<rparr>\<rparr>)"

text \<open>\<^verbatim>\<open>freeResponse\<close>; writing \<^verbatim>\<open>resp.next\<close> through a nil pointer panics.\<close>

definition freeResponse ::
  "'w Server \<Rightarrow> nat option \<Rightarrow> memory \<Rightarrow> ('w Server \<times> memory) outcome"
where
  "freeResponse server resp mem =
     (case resp of
        None \<Rightarrow> Panics
      | Some a \<Rightarrow>
          Returns
            (server\<lparr>freeResp := Some a\<rparr>,
             mem\<lparr>cells := (cells mem)(a := (cells mem a)\<lparr>next_resp := freeResp server\<rparr>)\<rparr>))"

subsection \<open>Runs of the server\<close>

text \<open>
  Any sequence of the operations of the package on one server, run from a state of the
  server, of the handlers' world and of the store. A panic leaves the state as the
  panicking function left it, and the run goes on, as it does after a \<^verbatim>\<open>recover\<close>.
\<close>

datatype op =
    DoRegister rvalue
  | DoRegisterName string rvalue
  | DoCall string "rvalue list"
  | DoGetResponse
  | DoFreeResponse "nat option"

fun exec :: "'w runtime \<Rightarrow> op list \<Rightarrow> 'w Server \<times> 'w \<times> memory \<Rightarrow> 'w Server \<times> 'w \<times> memory" where
  "exec rt [] st = st"
| "exec rt (DoRegister r # ops) (server, w, mem) =
     exec rt ops (reg_server (Register rt server r), w, mem)"
| "exec rt (DoRegisterName n r # ops) (server, w, mem) =
     exec rt ops (reg_server (RegisterName rt server n r), w, mem)"
| "exec rt (DoCall route args # ops) (server, w, mem) =
     (let r = Call server route args w in exec rt ops (call_server r, call_world r, mem))"
| "exec rt (DoGetResponse # ops) (server, w, mem) =
     (let r = getResponse server mem in exec rt ops (get_server r, w, get_mem r))"
| "exec rt (DoFreeResponse p # ops) (server, w, mem) =
     (case freeResponse server p mem of
        Panics \<Rightarrow> exec rt ops (server, w, mem)
      | Returns (server', mem') \<Rightarrow> exec rt ops (server', w, mem'))"

definition counters_zero :: "'w Server \<Rightarrow> bool" where
  "counters_zero server =
     list_all (\<lambda>(n, s). list_all (\<lambda>(k, m). NumCalls m = 0) (methods s)) (serviceMap server)"

subsection \<open>Two receivers\<close>

text \<open>
  The ASCII block of the upper-case table, which decides every name below.
\<close>

definition asciiUpper :: "nat \<Rightarrow> bool" where
  "asciiUpper r = (65 \<le> r \<and> r \<le> 90)"

text \<open>
  A receiver for the User namespace,
  \<^verbatim>\<open>type Echo struct{}; func (e *Echo) Echo(payload []byte) ([]byte, error) { return payload, nil }\<close>
  in package \<^verbatim>\<open>main\<close>. The world of its handler counts the calls made. \<^verbatim>\<open>reflect\<close> panics
  unless the call has the receiver and one more argument, which holds bytes.
\<close>

definition echoT :: rtype where
  "echoT = OtherType Struct ''Echo'' ''main''"

definition echoFunc :: "rvalue list \<Rightarrow> nat \<Rightarrow> rvalue list option \<times> nat" where
  "echoFunc args n =
     (case args of
        [r, Val t (Bytes payload)] \<Rightarrow>
          (Some [Val typeOfBytes (Bytes payload), Val typeOfError NilData], Suc n)
      | _ \<Rightarrow> (None, n))"

definition echoMethod :: "nat Method" where
  "echoMethod =
     \<lparr>MethodName = ''Echo'', MethodPkgPath = [], Recv = PtrTo echoT, Params = [typeOfBytes],
      Results = [typeOfBytes, typeOfError], Func = echoFunc\<rparr>"

text \<open>
  \<^verbatim>\<open>func (e *Echo) Text(payload []byte) (string, error)\<close>, of the shape the User namespace
  refuses.
\<close>

definition textMethod :: "nat Method" where
  "textMethod =
     \<lparr>MethodName = ''Text'', MethodPkgPath = [], Recv = PtrTo echoT, Params = [typeOfBytes],
      Results = [OtherType String ''string'' [], typeOfError],
      Func = (\<lambda>args n. (None, n))\<rparr>"

text \<open>
  A receiver for the Sys namespace, in package \<^verbatim>\<open>main\<close>:
  \<^verbatim>\<open>func (a *Arith) Add(args *Args, reply *int) error\<close>,
  \<^verbatim>\<open>func (a *Arith) Bad(args *Args, reply *int) int\<close>,
  \<^verbatim>\<open>func (a *Arith) Hidden(args *hidden, reply *int) error\<close>,
  \<^verbatim>\<open>func (a *Arith) Plain(args *Args, reply int) error\<close> and
  \<^verbatim>\<open>func (a *Arith) Value(args Args, reply *int) error\<close>.
\<close>

definition arithT :: rtype where
  "arithT = OtherType Struct ''Arith'' ''main''"

definition argsT :: rtype where
  "argsT = OtherType Struct ''Args'' ''main''"

definition hiddenT :: rtype where
  "hiddenT = OtherType Struct ''hidden'' ''main''"

definition intT :: rtype where
  "intT = OtherType Kind.Int ''int'' []"

definition arithMethod :: "string \<Rightarrow> rtype list \<Rightarrow> rtype list \<Rightarrow> nat Method" where
  "arithMethod n ps rs =
     \<lparr>MethodName = n, MethodPkgPath = [], Recv = PtrTo arithT, Params = ps, Results = rs,
      Func = (\<lambda>args k. (Some [Val typeOfError NilData], Suc k))\<rparr>"

definition arithMethods :: "nat Method list" where
  "arithMethods =
     [arithMethod ''Add'' [PtrTo argsT, PtrTo intT] [typeOfError],
      arithMethod ''Bad'' [PtrTo argsT, PtrTo intT] [intT],
      arithMethod ''Hidden'' [PtrTo hiddenT, PtrTo intT] [typeOfError],
      arithMethod ''Plain'' [PtrTo argsT, intT] [typeOfError],
      arithMethod ''Value'' [argsT, PtrTo intT] [typeOfError]]"

text \<open>The runtime of a program that declares these types.\<close>

definition demoRuntime :: "nat runtime" where
  "demoRuntime =
     \<lparr>Upper = asciiUpper,
      MethodSet = (\<lambda>t. if t = PtrTo echoT then [echoMethod, textMethod]
                       else if t = PtrTo arithT then arithMethods else [])\<rparr>"

definition echoRcvr :: rvalue where
  "echoRcvr = Val (PtrTo echoT) (Obj 0)"

definition echoServer :: "nat Server" where
  "echoServer = reg_server (Register demoRuntime (NewServer UserRpc) echoRcvr)"

text \<open>
  What registering \<open>echoRcvr\<close> under the name \<open>n\<close> stores, and the server on which it is
  registered with \<^verbatim>\<open>RegisterName("a.b", rcvr)\<close>.
\<close>

definition echoService :: "string \<Rightarrow> nat service" where
  "echoService n =
     \<lparr>name = n, rcvr = echoRcvr, rcvr_typ = PtrTo echoT,
      methods = [(''Echo'', \<lparr>method = echoMethod, ArgType = None, ReplyType = None,
                             numCalls = 0\<rparr>)]\<rparr>"


text \<open>A store in which nothing has been allocated.\<close>

definition emptyMemory :: memory where
  "emptyMemory = \<lparr>cells = (\<lambda>a. zero_Response), brk = 0\<rparr>"

section \<open>The method validator\<close>

lemma singleton_results: "(length xs = Suc 0 \<and> xs ! 0 = a) = (xs = [a])"
  by (cases xs) auto

lemma pair_results: "(length xs = 2 \<and> xs ! 0 = a \<and> xs ! Suc 0 = b) = (xs = [a, b])"
proof (cases xs)
  case Nil
  then show ?thesis by simp
next
  case (Cons x ys)
  then show ?thesis by (cases ys) auto
qed

text \<open>One turn of each loop: the chain of \<^verbatim>\<open>continue\<close> is the contract of \<section>4.1.\<close>

lemma sysLoop_Cons:
  "sysLoop rt (m # ms) acc =
     sysLoop rt ms (if sys_admissible rt m
        then AList.update (MethodName m)
               \<lparr>method = m, ArgType = Some (Params m ! 0), ReplyType = Some (Params m ! 1),
                numCalls = 0\<rparr> acc
        else acc)"
  using singleton_results [of "Results m" typeOfError]
  by (auto simp: sys_admissible_def Let_def NumIn_def In_def NumOut_def Out_def)

lemma userLoop_Cons:
  "userLoop (m # ms) acc =
     userLoop ms (if user_admissible m
        then AList.update (MethodName m)
               \<lparr>method = m, ArgType = None, ReplyType = None, numCalls = 0\<rparr> acc
        else acc)"
  using pair_results [of "Results m" typeOfBytes typeOfError]
  by (auto simp: user_admissible_def Let_def NumIn_def NumOut_def Out_def)

lemma sysLoop_absent:
  "k \<notin> MethodName ` set ms \<Longrightarrow> map_of (sysLoop rt ms acc) k = map_of acc k"
  by (induction ms arbitrary: acc)
    (auto simp: sysLoop_Cons update_conv' simp del: sysLoop.simps(2))

lemma userLoop_absent:
  "k \<notin> MethodName ` set ms \<Longrightarrow> map_of (userLoop ms acc) k = map_of acc k"
  by (induction ms arbitrary: acc)
    (auto simp: userLoop_Cons update_conv' simp del: userLoop.simps(2))

lemma sysLoop_lookup:
  "distinct (map MethodName ms) \<Longrightarrow> m \<in> set ms \<Longrightarrow>
   map_of (sysLoop rt ms acc) (MethodName m) =
     (if sys_admissible rt m
      then Some \<lparr>method = m, ArgType = Some (Params m ! 0), ReplyType = Some (Params m ! 1),
                numCalls = 0\<rparr>
      else map_of acc (MethodName m))"
proof (induction ms arbitrary: acc)
  case Nil
  then show ?case by simp
next
  case (Cons a ms)
  show ?case
  proof (cases "m = a")
    case True
    with Cons.prems have "MethodName m \<notin> MethodName ` set ms" by auto
    then show ?thesis using True
      by (simp add: sysLoop_Cons sysLoop_absent update_conv' del: sysLoop.simps(2))
  next
    case False
    with Cons.prems have in_ms: "m \<in> set ms" and d: "distinct (map MethodName ms)"
      and ne: "MethodName a \<noteq> MethodName m" by auto
    show ?thesis using Cons.IH [OF d in_ms] ne
      by (simp add: sysLoop_Cons update_conv' del: sysLoop.simps(2))
  qed
qed

lemma userLoop_lookup:
  "distinct (map MethodName ms) \<Longrightarrow> m \<in> set ms \<Longrightarrow>
   map_of (userLoop ms acc) (MethodName m) =
     (if user_admissible m
      then Some \<lparr>method = m, ArgType = None, ReplyType = None, numCalls = 0\<rparr>
      else map_of acc (MethodName m))"
proof (induction ms arbitrary: acc)
  case Nil
  then show ?case by simp
next
  case (Cons a ms)
  show ?case
  proof (cases "m = a")
    case True
    with Cons.prems have "MethodName m \<notin> MethodName ` set ms" by auto
    then show ?thesis using True
      by (simp add: userLoop_Cons userLoop_absent update_conv' del: userLoop.simps(2))
  next
    case False
    with Cons.prems have in_ms: "m \<in> set ms" and d: "distinct (map MethodName ms)"
      and ne: "MethodName a \<noteq> MethodName m" by auto
    show ?thesis using Cons.IH [OF d in_ms] ne
      by (simp add: userLoop_Cons update_conv' del: userLoop.simps(2))
  qed
qed

text \<open>
  C1. Let \<open>m\<close> be a method of the reflected type \<open>t\<close>, whose methods have distinct names as
  those of a Go type do. In the Sys namespace \<^verbatim>\<open>suitableMethods\<close> has an entry for \<open>m\<close>, which
  then holds \<open>m\<close> with its two parameter types, exactly when \<open>m\<close> is exported, has two
  parameters beyond the receiver, the first of an exported or builtin type and of pointer
  kind, the second of an exported or builtin type (pointer or not), and returns the one
  result \<^verbatim>\<open>error\<close>; otherwise the map has nothing under the name of \<open>m\<close>.
\<close>

theorem sys_validator_admits:
  assumes "distinct (map MethodName (MethodSet rt t))" and "m \<in> set (MethodSet rt t)"
  shows "map_of (suitableMethods rt SysRpc t reportErr) (MethodName m) =
     (if MethodPkgPath m = [] \<and> length (Params m) = 2
         \<and> isExportedOrBuiltinType rt (Params m ! 0) \<and> isPtr (Params m ! 0)
         \<and> isExportedOrBuiltinType rt (Params m ! 1)
         \<and> Results m = [typeOfError]
      then Some \<lparr>method = m, ArgType = Some (Params m ! 0), ReplyType = Some (Params m ! 1),
                numCalls = 0\<rparr>
      else None)"
  using sysLoop_lookup [OF assms, of rt "[]"]
  by (simp add: suitableMethods_def sys_admissible_def)

lemma demo_names:
  "isExported demoRuntime ''Args''" "\<not> isExported demoRuntime ''hidden''"
  "isExported demoRuntime ''Echo''" "\<not> isExported demoRuntime ''echo''"
  by (simp_all add: isExported_def DecodeRuneInString_def demoRuntime_def asciiUpper_def)

lemma arith_MethodSet: "MethodSet demoRuntime (PtrTo arithT) = arithMethods"
  by (simp add: demoRuntime_def PtrTo_def echoT_def arithT_def)

lemma arith_distinct: "distinct (map MethodName arithMethods)"
  by (simp add: arithMethods_def arithMethod_def)

text \<open>
  On \<^verbatim>\<open>*Arith\<close>: \<^verbatim>\<open>Add\<close> is admitted, and so is \<^verbatim>\<open>Plain\<close>, whose reply is no pointer;
  \<^verbatim>\<open>Bad\<close> (returns \<^verbatim>\<open>int\<close>), \<^verbatim>\<open>Hidden\<close> (unexported argument type) and \<^verbatim>\<open>Value\<close> (argument
  no pointer) are refused.
\<close>

theorem sys_validator_admits_witness:
  "distinct (map MethodName (MethodSet demoRuntime (PtrTo arithT)))
   \<and> arithMethod ''Add'' [PtrTo argsT, PtrTo intT] [typeOfError]
        \<in> set (MethodSet demoRuntime (PtrTo arithT))
   \<and> map_of (suitableMethods demoRuntime SysRpc (PtrTo arithT) True) ''Add''
       = Some \<lparr>method = arithMethod ''Add'' [PtrTo argsT, PtrTo intT] [typeOfError],
               ArgType = Some (PtrTo argsT), ReplyType = Some (PtrTo intT), numCalls = 0\<rparr>
   \<and> map_of (suitableMethods demoRuntime SysRpc (PtrTo arithT) True) ''Plain''
       = Some \<lparr>method = arithMethod ''Plain'' [PtrTo argsT, intT] [typeOfError],
               ArgType = Some (PtrTo argsT), ReplyType = Some intT, numCalls = 0\<rparr>
   \<and> map_of (suitableMethods demoRuntime SysRpc (PtrTo arithT) True) ''Bad'' = None
   \<and> map_of (suitableMethods demoRuntime SysRpc (PtrTo arithT) True) ''Hidden'' = None
   \<and> map_of (suitableMethods demoRuntime SysRpc (PtrTo arithT) True) ''Value'' = None"
proof -
  have d: "distinct (map MethodName (MethodSet demoRuntime (PtrTo arithT)))"
    by (simp add: arith_MethodSet arith_distinct)
  have i: "arithMethod n ps rs \<in> set arithMethods
    \<Longrightarrow> arithMethod n ps rs \<in> set (MethodSet demoRuntime (PtrTo arithT))" for n ps rs
    by (simp add: arith_MethodSet)
  have add: "arithMethod ''Add'' [PtrTo argsT, PtrTo intT] [typeOfError] \<in> set arithMethods"
    and plain: "arithMethod ''Plain'' [PtrTo argsT, intT] [typeOfError] \<in> set arithMethods"
    and bad: "arithMethod ''Bad'' [PtrTo argsT, PtrTo intT] [intT] \<in> set arithMethods"
    and hidden: "arithMethod ''Hidden'' [PtrTo hiddenT, PtrTo intT] [typeOfError] \<in> set arithMethods"
    and val: "arithMethod ''Value'' [argsT, PtrTo intT] [typeOfError] \<in> set arithMethods"
    by (simp_all add: arithMethods_def)
  show ?thesis
    using d i [OF add]
      sys_validator_admits [OF d i [OF add], of True]
      sys_validator_admits [OF d i [OF plain], of True]
      sys_validator_admits [OF d i [OF bad], of True]
      sys_validator_admits [OF d i [OF hidden], of True]
      sys_validator_admits [OF d i [OF val], of True]
      demo_names
    by (simp add: arithMethod_def PtrTo_def argsT_def intT_def hiddenT_def typeOfError_def)
qed

text \<open>
  C2. Let \<open>m\<close> be a method of the reflected type \<open>t\<close>, whose methods have distinct names. The
  test \<^verbatim>\<open>mtype.NumIn() < 1\<close> is false of \<open>m\<close>, the receiver being an input. In the User
  namespace \<^verbatim>\<open>suitableMethods\<close> has an entry for \<open>m\<close>, which then holds \<open>m\<close> and no argument or
  reply type, exactly when \<open>m\<close> is exported, has at least one input counting the receiver,
  and returns exactly \<^verbatim>\<open>([]byte, error)\<close>; otherwise the map has nothing under the name of
  \<open>m\<close>, as when \<open>m\<close> returns \<^verbatim>\<open>(string, error)\<close>.
\<close>

theorem user_validator_admits:
  assumes "distinct (map MethodName (MethodSet rt t))" and "m \<in> set (MethodSet rt t)"
  shows "\<not> NumIn m < 1 \<and>
     map_of (suitableMethods rt UserRpc t reportErr) (MethodName m) =
       (if MethodPkgPath m = [] \<and> 1 \<le> NumIn m \<and> Results m = [typeOfBytes, typeOfError]
        then Some \<lparr>method = m, ArgType = None, ReplyType = None, numCalls = 0\<rparr>
        else None) \<and>
     (Results m = [OtherType String ''string'' [], typeOfError] \<longrightarrow>
        map_of (suitableMethods rt UserRpc t reportErr) (MethodName m) = None)"
  using userLoop_lookup [OF assms, of "[]"]
  by (simp add: suitableMethods_def user_admissible_def SysRpc_def UserRpc_def NumIn_def
      typeOfBytes_def)

lemma echo_MethodSet: "MethodSet demoRuntime (PtrTo echoT) = [echoMethod, textMethod]"
  by (simp add: demoRuntime_def)

theorem user_validator_admits_witness:
  "distinct (map MethodName (MethodSet demoRuntime (PtrTo echoT)))
   \<and> echoMethod \<in> set (MethodSet demoRuntime (PtrTo echoT))
   \<and> textMethod \<in> set (MethodSet demoRuntime (PtrTo echoT))
   \<and> Results textMethod = [OtherType String ''string'' [], typeOfError]
   \<and> map_of (suitableMethods demoRuntime UserRpc (PtrTo echoT) True) ''Echo''
       = Some \<lparr>method = echoMethod, ArgType = None, ReplyType = None, numCalls = 0\<rparr>
   \<and> map_of (suitableMethods demoRuntime UserRpc (PtrTo echoT) True) ''Text'' = None"
proof -
  have d: "distinct (map MethodName (MethodSet demoRuntime (PtrTo echoT)))"
    by (simp add: echo_MethodSet echoMethod_def textMethod_def)
  have e: "echoMethod \<in> set (MethodSet demoRuntime (PtrTo echoT))"
    and t: "textMethod \<in> set (MethodSet demoRuntime (PtrTo echoT))"
    by (simp_all add: echo_MethodSet)
  have r: "Results textMethod = [OtherType String ''string'' [], typeOfError]"
    by (simp add: textMethod_def)
  have n: "MethodName echoMethod = ''Echo''" "MethodName textMethod = ''Text''"
    "MethodPkgPath echoMethod = []" "Results echoMethod = [typeOfBytes, typeOfError]"
    by (simp_all add: echoMethod_def textMethod_def)
  show ?thesis
    using d e t r user_validator_admits [OF d e, of True] user_validator_admits [OF d t, of True]
    by (simp add: n NumIn_def typeOfBytes_def)
qed

section \<open>Registering the Echo receiver\<close>

lemma echo_suitable:
  "suitableMethods demoRuntime UserRpc (PtrTo echoT) b =
     [(''Echo'', \<lparr>method = echoMethod, ArgType = None, ReplyType = None, numCalls = 0\<rparr>)]"
  by (simp add: suitableMethods_def echo_MethodSet SysRpc_def UserRpc_def userLoop_Cons
      user_admissible_def echoMethod_def textMethod_def typeOfBytes_def
      del: userLoop.simps(2))

text \<open>\<^verbatim>\<open>register\<close> on a receiver that is not nil, check by check.\<close>

lemma register_Val:
  "Indirect_Type (Val t d) = Some it \<Longrightarrow>
   register rt server (Val t d) n u =
     (let sname = (if u then n else Name it) in
      if sname = [] then
        \<lparr>reg_out = Returns (Some (NoServiceName t)), reg_server = server,
         reg_events = [Lock, Unlock]\<rparr>
      else if \<not> isExported rt sname \<and> \<not> u then
        \<lparr>reg_out = Returns (Some (TypeNotExported sname)), reg_server = server,
         reg_events = [Lock, Unlock]\<rparr>
      else if map_of (serviceMap server) sname \<noteq> None then
        \<lparr>reg_out = Returns (Some (ServiceAlreadyDefined sname)), reg_server = server,
         reg_events = [Lock, ReadServiceMap sname, Unlock]\<rparr>
      else if suitableMethods rt (Kind server) t True = [] then
        \<lparr>reg_out = Returns (Some (NoSuitableMethods sname
            (suitableMethods rt (Kind server) (PtrTo t) False \<noteq> []))),
         reg_server = server, reg_events = [Lock, ReadServiceMap sname, Unlock]\<rparr>
      else
        \<lparr>reg_out = Returns None,
         reg_server = server\<lparr>serviceMap :=
           AList.update sname
             \<lparr>name = sname, rcvr = Val t d, rcvr_typ = t,
              methods = suitableMethods rt (Kind server) t True\<rparr>
             (serviceMap server)\<rparr>,
         reg_events = [Lock, ReadServiceMap sname, WriteServiceMap sname, Unlock]\<rparr>)"
  by (simp add: register_def Let_def)

lemma echoT_Name: "Name echoT = ''Echo''"
  by (simp add: echoT_def)

lemma echoRcvr_Indirect: "Indirect_Type (Val (PtrTo echoT) (Obj 0)) = Some echoT"
  by (simp add: PtrTo_def)


lemma echoServer_eq:
  "echoServer = \<lparr>Kind = UserRpc,
        serviceMap = [(''Echo'', \<lparr>name = ''Echo'', rcvr = echoRcvr, rcvr_typ = PtrTo echoT,
           methods = [(''Echo'', \<lparr>method = echoMethod, ArgType = None, ReplyType = None,
                                  numCalls = 0\<rparr>)]\<rparr>)],
        freeReq = None, freeResp = None\<rparr>"
  by (simp add: echoServer_def Register_def echoRcvr_def register_Val [OF echoRcvr_Indirect]
      NewServer_def echo_suitable echoT_Name demo_names Let_def)


section \<open>Dispatch\<close>

lemma Split_not_Nil: "Split s c \<noteq> []"
  by (induction s) (auto split: list.splits)

lemma length_Split: "length (Split s c) = Suc (length (filter (\<lambda>x. x = c) s))"
  by (induction s) (auto split: list.splits simp: Split_not_Nil)

lemma Split_without: "c \<notin> set s \<Longrightarrow> Split s c = [s]"
  by (induction s) auto

lemma Split_once: "c \<notin> set a \<Longrightarrow> c \<notin> set b \<Longrightarrow> Split (a @ c # b) c = [a, b]"
  by (induction a) (auto simp: Split_without)

lemma Call_route:
  "CHR ''.'' \<notin> set S \<Longrightarrow> CHR ''.'' \<notin> set M \<Longrightarrow>
   Split (S @ ''.'' @ M) (CHR ''.'') = [S, M]"
  using Split_once [of "CHR ''.''" S M] by simp

text \<open>
  C4, as the code has it. \<^verbatim>\<open>Call\<close> fails with \<^verbatim>\<open>"wrong route string"\<close> exactly when the route
  does not hold exactly one separator, and then it has looked nothing up, invoked nothing
  and changed nothing. The two segments around a single separator may be empty: such a
  route passes this test and goes on to the lookup.
\<close>

theorem Call_wrong_route:
  "(call_out (Call server route args w) = Returns (None, Some WrongRouteString))
     = (length (filter (\<lambda>c. c = CHR ''.'') route) \<noteq> 1)
   \<and> (length (filter (\<lambda>c. c = CHR ''.'') route) \<noteq> 1 \<longrightarrow>
        Call server route args w =
          \<lparr>call_out = Returns (None, Some WrongRouteString), call_server = server,
           call_world = w, call_events = []\<rparr>)"
  by (auto simp: Call_def Let_def length_Split split: option.splits prod.splits)

theorem Call_wrong_route_witness:
  "length (filter (\<lambda>c. c = CHR ''.'') ''Foo'') \<noteq> 1
   \<and> Call (NewServer UserRpc) ''Foo'' [] (0::nat) =
        \<lparr>call_out = Returns (None, Some WrongRouteString), call_server = NewServer UserRpc,
         call_world = 0, call_events = []\<rparr>
   \<and> length (filter (\<lambda>c. c = CHR ''.'') ''a.b.Echo'') \<noteq> 1
   \<and> call_out (Call (NewServer UserRpc) ''a.b.Echo'' [] (0::nat))
        = Returns (None, Some WrongRouteString)"
  using Call_wrong_route [of "NewServer UserRpc" "''Foo''" "[]" "0::nat"]
    Call_wrong_route [of "NewServer UserRpc" "''a.b.Echo''" "[]" "0::nat"]
  by simp

text \<open>
  The route \<^verbatim>\<open>".Bar"\<close> has an empty service segment; on an empty registry \<^verbatim>\<open>Call\<close> looks the
  empty name up and fails with \<^verbatim>\<open>"rpc:  do not exists"\<close>, not with
  \<^verbatim>\<open>"wrong route string"\<close>.
\<close>

theorem Call_empty_segment_counterexample:
  "call_out (Call (NewServer UserRpc) ''.Bar'' [] (0::nat))
     = Returns (None, Some (DoNotExists []))
   \<and> call_out (Call (NewServer UserRpc) ''.Bar'' [] (0::nat))
     \<noteq> Returns (None, Some WrongRouteString)
   \<and> call_events (Call (NewServer UserRpc) ''.Bar'' [] (0::nat)) = [ReadServiceMap []]"
  by (simp add: Call_def NewServer_def)

text \<open>
  C5. Let the route be \<open>S.M\<close> with no separator inside \<open>S\<close> or \<open>M\<close>. If the registry has no
  service \<open>S\<close>, \<^verbatim>\<open>Call\<close> returns no results and the error naming \<open>S\<close>; if it has \<open>S\<close> but \<open>S\<close>
  has no method \<open>M\<close>, no results and the error naming \<open>M\<close>. Either way the handlers' world and
  the server are as they were, whatever the handlers are: none has run.
\<close>

theorem Call_lookup_failures:
  assumes "CHR ''.'' \<notin> set S" and "CHR ''.'' \<notin> set M"
  shows "(map_of (serviceMap server) S = None \<longrightarrow>
            Call server (S @ ''.'' @ M) args w =
              \<lparr>call_out = Returns (None, Some (DoNotExists S)), call_server = server,
               call_world = w, call_events = [ReadServiceMap S]\<rparr>)
       \<and> (\<forall>s. map_of (serviceMap server) S = Some s \<and> map_of (methods s) M = None \<longrightarrow>
            Call server (S @ ''.'' @ M) args w =
              \<lparr>call_out = Returns (None, Some (DoNotExists M)), call_server = server,
               call_world = w, call_events = [ReadServiceMap S]\<rparr>)"
  using Call_route [OF assms] by (simp add: Call_def)

theorem Call_lookup_failures_witness:
  "CHR ''.'' \<notin> set ''Foo'' \<and> CHR ''.'' \<notin> set ''Bar''
   \<and> map_of (serviceMap (NewServer UserRpc :: nat Server)) ''Foo'' = None
   \<and> Call (NewServer UserRpc) ''Foo.Bar'' [Val typeOfBytes (Bytes [])] (0::nat) =
        \<lparr>call_out = Returns (None, Some (DoNotExists ''Foo'')),
         call_server = NewServer UserRpc, call_world = 0,
         call_events = [ReadServiceMap ''Foo'']\<rparr>
   \<and> map_of (serviceMap echoServer) ''Echo'' = Some (echoService ''Echo'')
   \<and> map_of (methods (echoService ''Echo'')) ''Missing'' = None
   \<and> Call echoServer ''Echo.Missing'' [Val typeOfBytes (Bytes [])] 0 =
        \<lparr>call_out = Returns (None, Some (DoNotExists ''Missing'')),
         call_server = echoServer, call_world = 0,
         call_events = [ReadServiceMap ''Echo'']\<rparr>"
proof -
  have f: "CHR ''.'' \<notin> set ''Foo''" and b: "CHR ''.'' \<notin> set ''Bar''"
    and e: "CHR ''.'' \<notin> set ''Echo''" and m: "CHR ''.'' \<notin> set ''Missing''"
    by simp_all
  have n: "map_of (serviceMap (NewServer UserRpc :: nat Server)) ''Foo'' = None"
    by (simp add: NewServer_def)
  have s: "map_of (serviceMap echoServer) ''Echo'' = Some (echoService ''Echo'')"
    by (simp add: echoServer_eq echoService_def)
  have k: "map_of (methods (echoService ''Echo'')) ''Missing'' = None"
    by (simp add: echoService_def)
  show ?thesis
    using f b n s k
      Call_lookup_failures [OF f b, of "NewServer UserRpc" "[Val typeOfBytes (Bytes [])]" "0::nat"]
      Call_lookup_failures [OF e m, of echoServer "[Val typeOfBytes (Bytes [])]" 0]
    by simp
qed




section \<open>Registration\<close>

text \<open>
  C3, as the code has it. Let the receiver be neither the nil interface nor a nil pointer,
  and let the service name be the explicit name when one is given (with \<^verbatim>\<open>RegisterName\<close>, be it
  empty) and otherwise the name of the receiver's type, after one pointer indirection.
  \<^verbatim>\<open>register\<close> returns the first of these that applies, and nil when none does:
  the error of an empty service name, when the service name is empty; the error of an
  unexported name, when no explicit name is given and the name is not exported; the error
  of a duplicate service, when the registry has the name; the error of no suitable methods,
  when the validator finds none on the receiver's type, with the hint exactly when it
  finds some on the pointer to that type.
\<close>

theorem register_checks_in_order:
  assumes "Indirect_Type (Val t d) = Some it"
  shows "reg_out (register rt server (Val t d) n useName) =
     Returns
       (let sname = (if useName then n else Name it) in
        if sname = [] then Some (NoServiceName t)
        else if \<not> useName \<and> \<not> isExported rt sname then Some (TypeNotExported sname)
        else if map_of (serviceMap server) sname \<noteq> None
          then Some (ServiceAlreadyDefined sname)
        else if suitableMethods rt (Kind server) t True = []
          then Some (NoSuitableMethods sname
                  (suitableMethods rt (Kind server) (PtrTo t) False \<noteq> []))
        else None)"
  using assms by (auto simp: register_def Let_def)

lemma hidden_Indirect: "Indirect_Type (Val (PtrTo hiddenT) (Obj 0)) = Some hiddenT"
  by (simp add: PtrTo_def)

lemma echo_value_Indirect: "Indirect_Type (Val echoT (Obj 0)) = Some echoT"
  by (simp add: echoT_def)

lemma echo_value_suitable: "suitableMethods demoRuntime UserRpc echoT b = []"
  by (simp add: suitableMethods_def demoRuntime_def SysRpc_def UserRpc_def PtrTo_def echoT_def)

lemma echo_sys_suitable: "suitableMethods demoRuntime SysRpc (PtrTo echoT) b = []"
  by (simp add: suitableMethods_def echo_MethodSet sysLoop_Cons sys_admissible_def
      echoMethod_def textMethod_def del: sysLoop.simps(2))

lemma echo_ptrptr_suitable: "suitableMethods demoRuntime SysRpc (PtrTo (PtrTo echoT)) b = []"
  by (simp add: suitableMethods_def demoRuntime_def PtrTo_def echoT_def arithT_def)

theorem register_checks_in_order_witness:
  "Indirect_Type (Val (PtrTo echoT) (Obj 0)) = Some echoT
   \<and> Indirect_Type (Val (PtrTo hiddenT) (Obj 0)) = Some hiddenT
   \<and> Indirect_Type (Val echoT (Obj 0)) = Some echoT
   \<and> reg_out (register demoRuntime (NewServer UserRpc) (Val (PtrTo echoT) (Obj 0)) [] True)
        = Returns (Some (NoServiceName (PtrTo echoT)))
   \<and> reg_out (register demoRuntime (NewServer UserRpc) (Val (PtrTo hiddenT) (Obj 0)) [] False)
        = Returns (Some (TypeNotExported ''hidden''))
   \<and> reg_out (register demoRuntime echoServer (Val (PtrTo echoT) (Obj 0)) [] False)
        = Returns (Some (ServiceAlreadyDefined ''Echo''))
   \<and> reg_out (register demoRuntime (NewServer UserRpc) (Val echoT (Obj 0)) [] False)
        = Returns (Some (NoSuitableMethods ''Echo'' True))
   \<and> reg_out (register demoRuntime (NewServer SysRpc) (Val (PtrTo echoT) (Obj 0)) [] False)
        = Returns (Some (NoSuitableMethods ''Echo'' False))
   \<and> reg_out (register demoRuntime (NewServer UserRpc) (Val (PtrTo echoT) (Obj 0)) [] False)
        = Returns None"
  using echoRcvr_Indirect hidden_Indirect echo_value_Indirect
    register_checks_in_order [OF echoRcvr_Indirect, of demoRuntime "NewServer UserRpc" "[]" True]
    register_checks_in_order [OF hidden_Indirect, of demoRuntime "NewServer UserRpc" "[]" False]
    register_checks_in_order [OF echoRcvr_Indirect, of demoRuntime echoServer "[]" False]
    register_checks_in_order [OF echo_value_Indirect, of demoRuntime "NewServer UserRpc" "[]" False]
    register_checks_in_order [OF echoRcvr_Indirect, of demoRuntime "NewServer SysRpc" "[]" False]
    register_checks_in_order [OF echoRcvr_Indirect, of demoRuntime "NewServer UserRpc" "[]" False]
  by (simp add: Let_def echoT_Name demo_names NewServer_def echoServer_eq echo_suitable
      echo_value_suitable echo_sys_suitable echo_ptrptr_suitable hiddenT_def)

text \<open>
  A nil pointer of the unexported type \<^verbatim>\<open>*hidden\<close>, registered without a name: the name
  derived from its type is \<^verbatim>\<open>hidden\<close>, which is not exported, but \<^verbatim>\<open>register\<close> panics in
  \<^verbatim>\<open>reflect.Indirect(s.rcvr).Type()\<close> before any check and returns no error.
\<close>

theorem register_nil_pointer_counterexample:
  "reg_out (register demoRuntime (NewServer UserRpc) (Val (PtrTo hiddenT) NilData) [] False)
     = Panics
   \<and> reg_out (register demoRuntime (NewServer UserRpc) (Val (PtrTo hiddenT) NilData) [] False)
     \<noteq> Returns (Some (TypeNotExported ''hidden''))
   \<and> Name hiddenT = ''hidden'' \<and> \<not> isExported demoRuntime ''hidden''"
  by (simp add: register_def PtrTo_def hiddenT_def demo_names)

text \<open>
  C7. Whenever \<^verbatim>\<open>register\<close> does not return nil, be it one of the four errors or a panic, the
  server it leaves is the server it was given, service map included. When the error is
  that of a duplicate service under the name \<open>k\<close>, the registry held \<open>k\<close> before and holds
  the same service, with the same receiver and methods, after.
\<close>

theorem register_failure_keeps_registry:
  "(reg_out (register rt server r n useName) \<noteq> Returns None \<longrightarrow>
      reg_server (register rt server r n useName) = server)
   \<and> (reg_out (register rt server r n useName) = Returns (Some (ServiceAlreadyDefined k)) \<longrightarrow>
      map_of (serviceMap (reg_server (register rt server r n useName))) k
        = map_of (serviceMap server) k
      \<and> map_of (serviceMap server) k \<noteq> None)"
  by (auto simp: register_def Let_def split: rvalue.splits option.splits if_splits)

theorem register_failure_keeps_registry_witness:
  "reg_out (register demoRuntime echoServer (Val (PtrTo arithT) (Obj 2)) ''Echo'' True)
     = Returns (Some (ServiceAlreadyDefined ''Echo''))
   \<and> reg_server (register demoRuntime echoServer (Val (PtrTo arithT) (Obj 2)) ''Echo'' True)
     = echoServer
   \<and> map_of (serviceMap (reg_server
        (register demoRuntime echoServer (Val (PtrTo arithT) (Obj 2)) ''Echo'' True))) ''Echo''
     = Some (echoService ''Echo'')"
proof -
  have i: "Indirect_Type (Val (PtrTo arithT) (Obj 2)) = Some arithT"
    by (simp add: PtrTo_def)
  have o: "reg_out (register demoRuntime echoServer (Val (PtrTo arithT) (Obj 2)) ''Echo'' True)
     = Returns (Some (ServiceAlreadyDefined ''Echo''))"
    by (simp add: register_Val [OF i] Let_def echoServer_eq)
  show ?thesis
    using o register_failure_keeps_registry
      [of demoRuntime echoServer "Val (PtrTo arithT) (Obj 2)" "''Echo''" True "''Echo''"]
    by (simp add: echoServer_eq echoService_def)
qed

section \<open>The Response pool\<close>

text \<open>
  C8. The Response that \<^verbatim>\<open>getResponse\<close> returns is \<^verbatim>\<open>Response{}\<close>, every field at its zero value,
  whether it was allocated or taken from the free list, and whatever the store held. After
  \<^verbatim>\<open>freeResponse(x)\<close> the next \<^verbatim>\<open>getResponse\<close> returns the same address \<open>x\<close>, zeroed, and
  leaves the free list as it was before \<open>x\<close> was released.
\<close>

theorem getResponse_zeroed:
  "cells (get_mem (getResponse server mem)) (got (getResponse server mem)) = zero_Response
   \<and> (case freeResponse server (Some x) mem of
        Panics \<Rightarrow> False
      | Returns (server', mem') \<Rightarrow>
          got (getResponse server' mem') = x
          \<and> cells (get_mem (getResponse server' mem')) x = zero_Response
          \<and> freeResp (get_server (getResponse server' mem')) = freeResp server)"
  by (simp add: getResponse_def freeResponse_def Let_def split: option.splits)

section \<open>The lock of the registry\<close>

text \<open>Every way through \<^verbatim>\<open>register\<close> reads and writes the map between \<^verbatim>\<open>Lock\<close> and \<^verbatim>\<open>Unlock\<close>.\<close>

lemma register_events_locked:
  "accesses_locked False (reg_events (register rt server r n u))"
  by (simp add: register_def Let_def split: rvalue.splits option.splits)

text \<open>
  C9 asks that the lookup in \<^verbatim>\<open>Call\<close> hold a read lock on \<^verbatim>\<open>mu\<close>. It does not: a dispatch of
  \<^verbatim>\<open>Echo.Echo\<close> reads the service map and takes no lock at all, so the read is not between
  an acquisition and a release, while the registration of the same service is.
\<close>

theorem Call_lookup_not_locked:
  "call_events (Call echoServer ''Echo.Echo'' [Val typeOfBytes (Bytes [])] 0)
     = [ReadServiceMap ''Echo'']
   \<and> \<not> accesses_locked False
         (call_events (Call echoServer ''Echo.Echo'' [Val typeOfBytes (Bytes [])] 0))
   \<and> reg_events (Register demoRuntime (NewServer UserRpc) echoRcvr)
     = [Lock, ReadServiceMap ''Echo'', WriteServiceMap ''Echo'', Unlock]
   \<and> accesses_locked False (reg_events (Register demoRuntime (NewServer UserRpc) echoRcvr))"
  by (simp add: Call_def Let_def echoServer_eq echoMethod_def echoFunc_def echoRcvr_def
      Register_def register_Val [OF echoRcvr_Indirect] NewServer_def echo_suitable echoT_Name
      demo_names)

section \<open>The call counter\<close>

lemma update_entries:
  "(k', v') \<in> set (AList.update k v al) \<Longrightarrow> (k', v') = (k, v) \<or> (k', v') \<in> set al"
  by (induction al) (auto split: if_splits)

lemma list_all_update:
  "P (k, v) \<Longrightarrow> list_all P al \<Longrightarrow> list_all P (AList.update k v al)"
  by (auto simp: list_all_iff dest: update_entries)

lemma sysLoop_counters:
  "list_all (\<lambda>(k, m). NumCalls m = 0) acc \<Longrightarrow>
   list_all (\<lambda>(k, m). NumCalls m = 0) (sysLoop rt ms acc)"
proof (induction ms arbitrary: acc)
  case Nil
  then show ?case by simp
next
  case (Cons a ms)
  from Cons.prems show ?case
    unfolding sysLoop_Cons
    by (intro Cons.IH) (auto simp: NumCalls_def intro!: list_all_update)
qed

lemma userLoop_counters:
  "list_all (\<lambda>(k, m). NumCalls m = 0) acc \<Longrightarrow>
   list_all (\<lambda>(k, m). NumCalls m = 0) (userLoop ms acc)"
proof (induction ms arbitrary: acc)
  case Nil
  then show ?case by simp
next
  case (Cons a ms)
  from Cons.prems show ?case
    unfolding userLoop_Cons
    by (intro Cons.IH) (auto simp: NumCalls_def intro!: list_all_update)
qed

lemma suitableMethods_counters:
  "list_all (\<lambda>(k, m). NumCalls m = 0) (suitableMethods rt kind t b)"
  by (simp add: suitableMethods_def sysLoop_counters userLoop_counters)

lemma register_counters:
  "counters_zero server \<Longrightarrow> counters_zero (reg_server (register rt server r n u))"
  by (auto simp: register_def Let_def counters_zero_def suitableMethods_counters
      intro!: list_all_update split: rvalue.splits option.splits)

lemma Call_server: "call_server (Call server route args w) = server"
  by (simp add: Call_def Let_def split: option.splits prod.splits)

lemma getResponse_counters:
  "counters_zero (get_server (getResponse server mem)) = counters_zero server"
  by (simp add: getResponse_def counters_zero_def Let_def split: option.splits)

lemma freeResponse_counters:
  "freeResponse server p mem = Returns (server', mem') \<Longrightarrow>
   counters_zero server' = counters_zero server"
  by (auto simp: freeResponse_def counters_zero_def split: option.splits)

lemma exec_counters:
  "counters_zero server \<Longrightarrow> counters_zero (fst (exec rt ops (server, w, mem)))"
proof (induction ops arbitrary: server w mem)
  case Nil
  then show ?case by simp
next
  case (Cons a ops)
  show ?case
  proof (cases a)
    case (DoRegister r)
    then show ?thesis
      using Cons.IH [OF register_counters [OF Cons.prems]] by (simp add: Register_def)
  next
    case (DoRegisterName n r)
    then show ?thesis
      using Cons.IH [OF register_counters [OF Cons.prems]] by (simp add: RegisterName_def)
  next
    case (DoCall route args)
    then show ?thesis using Cons.IH [OF Cons.prems] by (simp add: Let_def Call_server)
  next
    case DoGetResponse
    then show ?thesis using Cons.IH Cons.prems by (simp add: Let_def getResponse_counters)
  next
    case (DoFreeResponse p)
    then show ?thesis using Cons.IH Cons.prems
      by (auto split: outcome.splits simp: freeResponse_counters)
  qed
qed

lemma counters_zero_lookup:
  "counters_zero server \<Longrightarrow> map_of (serviceMap server) S = Some s \<Longrightarrow>
   map_of (methods s) M = Some m \<Longrightarrow> NumCalls m = 0"
  by (auto simp: counters_zero_def list_all_iff dest!: map_of_SomeD)

text \<open>
  C10. \<^verbatim>\<open>Call\<close> leaves the server, and with it every \<open>numCalls\<close>, as it was, whether it
  succeeds, fails or panics; \<^verbatim>\<open>NumCalls\<close> returns the stored field. After any run of
  registrations, dispatches and pool operations on a new server of any kind, \<^verbatim>\<open>NumCalls\<close> is
  0 for every method of every registered service.
\<close>

theorem numCalls_never_modified:
  "call_server (Call server route args w) = server
   \<and> NumCalls m = numCalls m
   \<and> (\<forall>S s M d. map_of (serviceMap (fst (exec rt ops (NewServer kind, w, mem)))) S = Some s
          \<longrightarrow> map_of (methods s) M = Some d \<longrightarrow> NumCalls d = 0)"
proof -
  have "counters_zero (NewServer kind :: 'a Server)"
    by (simp add: counters_zero_def NewServer_def)
  then have "counters_zero (fst (exec rt ops (NewServer kind, w, mem)))"
    by (rule exec_counters)
  then show ?thesis
    by (auto simp: Call_server NumCalls_def dest: counters_zero_lookup)
qed

lemma echo_run:
  "exec demoRuntime
     [DoRegister echoRcvr, DoCall ''Echo.Echo'' [Val typeOfBytes (Bytes [7])],
      DoCall ''Echo.Echo'' [Val typeOfBytes (Bytes [])]]
     (NewServer UserRpc, 0, emptyMemory) = (echoServer, 2, emptyMemory)"
  by (simp add: echoServer_def [symmetric] Let_def)
     (simp add: Call_def echoServer_eq Let_def echoMethod_def echoFunc_def echoRcvr_def)

theorem numCalls_never_modified_witness:
  "snd (exec demoRuntime
     [DoRegister echoRcvr, DoCall ''Echo.Echo'' [Val typeOfBytes (Bytes [7])],
      DoCall ''Echo.Echo'' [Val typeOfBytes (Bytes [])]]
     (NewServer UserRpc, 0, emptyMemory)) = (2, emptyMemory)
   \<and> map_of (serviceMap (fst (exec demoRuntime
        [DoRegister echoRcvr, DoCall ''Echo.Echo'' [Val typeOfBytes (Bytes [7])],
         DoCall ''Echo.Echo'' [Val typeOfBytes (Bytes [])]]
        (NewServer UserRpc, 0, emptyMemory)))) ''Echo'' = Some (echoService ''Echo'')
   \<and> map_of (methods (echoService ''Echo'')) ''Echo''
        = Some \<lparr>method = echoMethod, ArgType = None, ReplyType = None, numCalls = 0\<rparr>
   \<and> NumCalls \<lparr>method = echoMethod, ArgType = None, ReplyType = None, numCalls = 0\<rparr> = 0"
proof -
  let ?ops = "[DoRegister echoRcvr, DoCall ''Echo.Echo'' [Val typeOfBytes (Bytes [7])],
      DoCall ''Echo.Echo'' [Val typeOfBytes (Bytes [])]]"
  let ?d = "\<lparr>method = echoMethod, ArgType = None, ReplyType = None, numCalls = 0\<rparr>"
  have s: "map_of (serviceMap (fst (exec demoRuntime ?ops (NewServer UserRpc, 0, emptyMemory))))
      ''Echo'' = Some (echoService ''Echo'')"
    by (simp only: echo_run) (simp add: echoServer_eq echoService_def)
  have m: "map_of (methods (echoService ''Echo'')) ''Echo'' = Some ?d"
    by (simp add: echoService_def)
  have "NumCalls ?d = 0"
    using numCalls_never_modified
      [where rt = demoRuntime and ops = ?ops and kind = UserRpc and w = 0
        and mem = emptyMemory and server = echoServer and route = "''Echo.Echo''"
        and args = "[]" and m = ?d] s m
    by blast
  then show ?thesis using s m by (simp only: echo_run) simp
qed

end
